theory Spec2Isabelle
  imports Main "HOL-Library.Sublist"
begin

section \<open>Exceptions, HTTP responses and Python helpers\<close>

text \<open>
  The Python exceptions that the modelled code can raise. A raise is the left injection of
  a sum: a function returning \<open>error + 'a\<close> either raises (\<open>Inl\<close>) or returns (\<open>Inr\<close>).
  \<open>TransportError\<close> stands for the exceptions of the HTTP client itself (no response
  arrived), \<open>RemoteError\<close> for a failure of the registry client, \<open>PyException\<close> for a
  plain \<^verbatim>\<open>raise Exception(msg)\<close>, \<open>RetryError\<close> for the exception with which tenacity
  gives up, wrapping the last attempt's exception.
\<close>

datatype error =
    TypeError
  | ValueError
  | IndexError
  | KeyError string
  | UnboundLocalError
  | AttributeError
  | JSONDecodeError
  | TransportError
  | RemoteError
  | NomadException string
  | PyException string
  | RetryError error

text \<open>
  An httpx response: the status code, the body as text, and what \<^verbatim>\<open>.json()\<close> decodes
  from the body (\<open>None\<close> when the body is not a JSON document, so that \<^verbatim>\<open>.json()\<close>
  raises). The decoded document has the shape of the endpoint's Nomad API object; the
  type parameter is that shape.
\<close>

record 'a response =
  status_code :: nat
  resp_text :: string
  json :: "'a option"

type_synonym 'a http_result = "error + 'a response"

definition is_error :: "('a, 'b) response_scheme \<Rightarrow> bool" where
  "is_error r = (400 \<le> status_code r \<and> status_code r \<le> 599)"

text \<open>
  \<^verbatim>\<open>not response\<close>: httpx.Response defines neither \<^verbatim>\<open>__bool__\<close> nor \<^verbatim>\<open>__len__\<close>, so
  every response object is truthy.
\<close>

definition response_truthy :: "('a, 'b) response_scheme \<Rightarrow> bool" where
  "response_truthy r = True"

text \<open>Python's \<^verbatim>\<open>needle in haystack\<close> on strings: a contiguous substring.\<close>

definition str_in :: "string \<Rightarrow> string \<Rightarrow> bool" where
  "str_in needle haystack = sublist needle haystack"

text \<open>Decimal rendering of a number, as \<^verbatim>\<open>{result.status_code}\<close> in an f-string.\<close>

definition digit_char :: "nat \<Rightarrow> char" where
  "digit_char d = ''0123456789'' ! d"

fun string_of_nat :: "nat \<Rightarrow> string" where
  "string_of_nat n =
     (if 10 \<le> n then string_of_nat (n div 10) @ [digit_char (n mod 10)]
      else [digit_char n])"

text \<open>\<^verbatim>\<open>{value}\<close> in an f-string for a value that may be \<^verbatim>\<open>None\<close>.\<close>

definition py_str :: "string option \<Rightarrow> string" where
  "py_str v = (case v of None \<Rightarrow> ''None'' | Some s \<Rightarrow> s)"

text \<open>
  \<^verbatim>\<open>max(xs, key=key)\<close>: raises ValueError on the empty list, and returns the first of
  the maximal elements otherwise.
\<close>

fun max_by :: "('a \<Rightarrow> int) \<Rightarrow> 'a \<Rightarrow> 'a list \<Rightarrow> 'a" where
  "max_by key best [] = best"
| "max_by key best (x # xs) = max_by key (if key best < key x then x else best) xs"

definition py_max :: "('a \<Rightarrow> int) \<Rightarrow> 'a list \<Rightarrow> error + 'a" where
  "py_max key xs = (case xs of [] \<Rightarrow> Inl ValueError | x # rest \<Rightarrow> Inr (max_by key x rest))"

section \<open>nomad\_service.py: the scheduler client\<close>

text \<open>
  \<^verbatim>\<open>@define class NomadService\<close> has three attributes without default: \<^verbatim>\<open>client\<close>,
  \<^verbatim>\<open>log\<close> and \<^verbatim>\<open>namespace\<close>. The client and the logger are handles with no content
  here: the answer of the remote side to each request is an argument of the method that
  sends the request.
\<close>

record NomadService =
  namespace :: string

text \<open>
  The \<^verbatim>\<open>__init__\<close> that attrs generates takes all three attributes as required
  arguments. The argument is the \<^verbatim>\<open>namespace\<close> of the call, \<open>None\<close> when the call does
  not pass it: Python then raises TypeError (missing required argument).
\<close>

definition NomadService_init :: "string option \<Rightarrow> error + NomadService" where
  "NomadService_init namespace_arg =
     (case namespace_arg of
        None \<Rightarrow> Inl TypeError
      | Some ns \<Rightarrow> Inr \<lparr>namespace = ns\<rparr>)"

text \<open>
  The two string literals that \<open>create_volume\<close> looks for in the body of an error
  response; the first one contains two double quotes. The arguments \<^verbatim>\<open>parameters\<close> and
  \<^verbatim>\<open>min_size\<close> only go into the request.
\<close>

definition marker_access_point :: string where
  "marker_access_point = ''ErrorCode: '' @ [CHR 0x22] @ ''AccessPointAlreadyExists'' @ [CHR 0x22]"

definition marker_external_id :: string where
  "marker_external_id = ''volume external ID cannot be updated''"

definition create_volume ::
  "NomadService \<Rightarrow> string \<Rightarrow> string option \<Rightarrow> unit http_result \<Rightarrow> error + unit" where
  "create_volume self vid plugin_id put_result =
     (case put_result of
        Inl e \<Rightarrow> Inl e
      | Inr result \<Rightarrow>
          if is_error result then
            if \<not> str_in marker_access_point (resp_text result)
               \<and> \<not> str_in marker_external_id (resp_text result)
            then Inl (NomadException
                   (''Error registering volume.'' @ '' status code: ''
                    @ string_of_nat (status_code result) @ '', content: '' @ resp_text result))
            else Inr ()
          else Inr ())"

text \<open>
  The documents that the scheduler's endpoints return, with the fields the code reads.
  A field that the code reads with \<^verbatim>\<open>.get\<close>, or whose absence raises KeyError, is an
  option. The annotations of the methods (\<^verbatim>\<open>-> str\<close>) fix the type of a field that is
  present.
\<close>

record parsed_job =
  ID :: "string option"

text \<open>
  The value of \<^verbatim>\<open>"Status"\<close> in a job document is a string or JSON null, which Python
  reads as \<^verbatim>\<open>None\<close>: \<open>Some (Some s)\<close> is the string \<open>s\<close>, \<open>Some None\<close> is null, and
  \<open>None\<close> is a document without the key.
\<close>

record job_detail =
  Status :: "string option option"

text \<open>
  Modelled from the spec: the class \<^verbatim>\<open>TaskState\<close> of nomad\_model.py is not under src/.
  It is the per-task runtime state of an allocation, with the attributes that
  \<open>task_status\<close> reads: \<^verbatim>\<open>State\<close>, \<^verbatim>\<open>Failed\<close>, \<^verbatim>\<open>Events\<close>, and \<^verbatim>\<open>Type\<close> of an event.
\<close>

record TaskEvent =
  Type :: string

record TaskState =
  State :: string
  Failed :: bool
  Events :: "TaskEvent list option"

text \<open>
  A dict keeps the order of the JSON document, so \<^verbatim>\<open>TaskStates\<close> is a list of pairs of a
  task name and its state.
\<close>

record allocation =
  CreateTime :: int
  TaskStates :: "(string \<times> TaskState) list option"

record service_entry =
  Address :: string
  Port :: int

definition delete_volume :: "NomadService \<Rightarrow> string \<Rightarrow> unit http_result \<Rightarrow> error + unit" where
  "delete_volume self vid post_result =
     (case post_result of
        Inl e \<Rightarrow> Inl e
      | Inr result \<Rightarrow>
          if is_error result
          then Inl (NomadException (''Error deleting volume: '' @ resp_text result))
          else Inr ())"

text \<open>
  \<open>schedule_job\<close> sends two requests, the parse of the HCL and the registration of the
  parsed job; the second is only sent when the first succeeded. It returns \<^verbatim>\<open>job_id\<close>,
  the \<^verbatim>\<open>"ID"\<close> of the parsed job: one string.
\<close>

definition schedule_job ::
  "NomadService \<Rightarrow> string \<Rightarrow> parsed_job http_result \<Rightarrow> unit http_result \<Rightarrow> error + string" where
  "schedule_job self job_hcl post_parse post_register =
     (case post_parse of
        Inl e \<Rightarrow> Inl e
      | Inr parsed \<Rightarrow>
          if is_error parsed
          then Inl (NomadException (''Error parsing job: '' @ resp_text parsed))
          else
            (case json parsed of
               None \<Rightarrow> Inl JSONDecodeError
             | Some parsed_job_as_dict \<Rightarrow>
                 (case ID parsed_job_as_dict of
                    None \<Rightarrow> Inl (KeyError ''ID'')
                  | Some jid \<Rightarrow>
                      (case post_register of
                         Inl e \<Rightarrow> Inl e
                       | Inr job \<Rightarrow>
                           if is_error job
                           then Inl (NomadException (''Error registering job: '' @ resp_text job))
                           else Inr jid))))"

text \<open>
  \<open>job_status\<close> returns \<^verbatim>\<open>job_detail.get("Status", "")\<close>: the empty string when the key
  is absent, and the value of the key otherwise, which is \<^verbatim>\<open>None\<close> (here \<open>None\<close>) for
  JSON null.
\<close>

definition job_status ::
  "NomadService \<Rightarrow> string option \<Rightarrow> job_detail http_result \<Rightarrow> error + string option" where
  "job_status self jid get_result =
     (case get_result of
        Inl e \<Rightarrow> Inl e
      | Inr resp \<Rightarrow>
          if is_error resp
          then Inl (NomadException (''Error getting job status: '' @ resp_text resp))
          else
            (case json resp of
               None \<Rightarrow> Inl JSONDecodeError
             | Some detail \<Rightarrow> Inr (case Status detail of None \<Rightarrow> Some [] | Some v \<Rightarrow> v)))"

definition get_task_state_from_event :: "TaskState \<Rightarrow> string" where
  "get_task_state_from_event task =
     (case Events task of
        None \<Rightarrow> ''pending''
      | Some events \<Rightarrow>
          if events = [] then ''pending''
          else if Type (last events) \<in> set [''Driver'', ''Task Setup''] then ''starting''
          else ''pending'')"

text \<open>The \<^verbatim>\<open>for task in task_states.values()\<close> loop of \<open>task_status\<close>.\<close>

fun task_status_loop :: "TaskState list \<Rightarrow> string" where
  "task_status_loop [] = ''running''"
| "task_status_loop (task # rest) =
     (if State task = ''dead'' \<and> Failed task then ''dead''
      else if State task \<noteq> ''running'' then get_task_state_from_event task
      else task_status_loop rest)"

text \<open>
  \<open>task_status\<close> tests \<^verbatim>\<open>not allocs\<close> on the response object, before decoding it, and does
  not look at \<^verbatim>\<open>is_error\<close>. The test \<^verbatim>\<open>not latest_alloc\<close> is on an allocation document,
  a dict that has the key \<^verbatim>\<open>CreateTime\<close> and so is not empty.
\<close>

definition task_status ::
  "NomadService \<Rightarrow> string \<Rightarrow> allocation list http_result \<Rightarrow> error + string" where
  "task_status self jname get_result =
     (case get_result of
        Inl e \<Rightarrow> Inl e
      | Inr allocs \<Rightarrow>
          if \<not> response_truthy allocs then Inr ''pending''
          else
            (case json allocs of
               None \<Rightarrow> Inl JSONDecodeError
             | Some alloc_list \<Rightarrow>
                 (case py_max CreateTime alloc_list of
                    Inl e \<Rightarrow> Inl e
                  | Inr latest_alloc \<Rightarrow>
                      (let task_states =
                             (case TaskStates latest_alloc of None \<Rightarrow> [] | Some ts \<Rightarrow> ts)
                       in if task_states = [] then Inr ''pending''
                          else Inr (task_status_loop (map snd task_states))))))"

definition delete_job ::
  "NomadService \<Rightarrow> string option \<Rightarrow> bool option \<Rightarrow> unit http_result \<Rightarrow> error + unit" where
  "delete_job self jid purge delete_result =
     (case delete_result of
        Inl e \<Rightarrow> Inl e
      | Inr resp \<Rightarrow>
          if is_error resp
          then Inl (NomadException (''Error deleting job: '' @ resp_text resp))
          else Inr ())"

definition get_service_address ::
  "NomadService \<Rightarrow> string \<Rightarrow> service_entry list http_result \<Rightarrow> error + string \<times> int" where
  "get_service_address self sname get_result =
     (case get_result of
        Inl e \<Rightarrow> Inl e
      | Inr resp \<Rightarrow>
          if is_error resp
          then Inl (NomadException (''Error reading service: '' @ resp_text resp))
          else
            (case json resp of
               None \<Rightarrow> Inl JSONDecodeError
             | Some services \<Rightarrow>
                 if length services = 0
                 then Inl (NomadException (''Service '' @ sname @ '' not found''))
                 else if 1 < length services
                 then Inl (NomadException (''Multiple services found for '' @ sname))
                 else Inr (Address (hd services), Port (hd services))))"

section \<open>spawner.py: the lifecycle operations\<close>

text \<open>
  The four identity attributes of a \<^verbatim>\<open>NomadSpawner\<close>. The class does not declare them:
  an attribute exists once \<open>start\<close> or \<open>load_state\<close> has assigned it, and reading it
  before raises AttributeError. \<open>Value None\<close> is the attribute set to \<^verbatim>\<open>None\<close>, as
  \<open>clear_state\<close> leaves it. The attributes of the base class are not part of the record.
\<close>

datatype attr = Unset | Value "string option"

record NomadSpawner =
  job_id :: attr
  job_name :: attr
  service_name :: attr
  notebook_id :: attr

definition read_attr :: "attr \<Rightarrow> error + string option" where
  "read_attr a = (case a of Unset \<Rightarrow> Inl AttributeError | Value v \<Rightarrow> Inr v)"

definition clear_state :: "NomadSpawner \<Rightarrow> NomadSpawner" where
  "clear_state self =
     self\<lparr>job_id := Value None, job_name := Value None, service_name := Value None\<rparr>"

text \<open>
  Modelled from the spec: \<^verbatim>\<open>ConsulService.health_service\<close> (consul\_service.py is not
  under src/). The registry returns the list of the healthy instances of a service name,
  the empty list when none is registered, and fails with a RemoteError on a transport
  failure or a non-2xx answer. An instance is a document whose \<^verbatim>\<open>"Service"\<close> entry holds
  the address and the port. The answer of the registry is an argument of the type
  \<open>error + health_node list\<close>.
\<close>

record health_node =
  Service :: service_entry

text \<open>
  The calls that the spawner makes to its collaborators, in the order it makes them:
  the methods of the scheduler client and of the registry client, \<^verbatim>\<open>asyncio.sleep\<close> and
  tenacity's wait, and the closing of the two HTTP clients. A status query and a registry
  query are recorded with what they returned or raised.
\<close>

datatype client = NomadClient | ConsulClient

datatype event =
    EvCreateVolume string
  | EvScheduleJob string
  | EvJobStatus "string option" "error + string option"
  | EvSleep nat
  | EvHealthService "string option" "error + health_node list"
  | EvClose client

text \<open>
  \<open>_ensure_running\<close>: the loop runs until the status is \<^verbatim>\<open>"running"\<close> or \<^verbatim>\<open>"dead"\<close>, with
  no bound, so the model takes fuel, the number of iterations it may run, and returns
  \<open>None\<close> when the loop is still polling after that many. \<open>get k\<close> is the answer of the
  scheduler to the status request number \<open>k\<close>. The local variable \<^verbatim>\<open>status\<close> is an
  option of what \<open>job_status\<close> returns: \<open>None\<close> while no assignment has bound it. The \<^verbatim>\<open>except\<close> clause logs the
  exception of the status query and goes on to the comparison.
\<close>

fun ensure_running_loop ::
  "nat \<Rightarrow> NomadService \<Rightarrow> NomadSpawner \<Rightarrow> (nat \<Rightarrow> job_detail http_result) \<Rightarrow> nat
     \<Rightarrow> string option option \<Rightarrow> (error + unit) option \<times> event list" where
  "ensure_running_loop 0 nomad_service self get k status = (None, [])"
| "ensure_running_loop (Suc fuel) nomad_service self get k status =
     (let r = (case read_attr (job_id self) of
                 Inl e \<Rightarrow> Inl e
               | Inr jid \<Rightarrow> job_status nomad_service jid (get k));
          ev = (case job_id self of Unset \<Rightarrow> [] | Value jid \<Rightarrow> [EvJobStatus jid r]);
          status' = (case r of Inl e \<Rightarrow> status | Inr st \<Rightarrow> Some st)
      in case status' of
           None \<Rightarrow> (Some (Inl UnboundLocalError), ev)
         | Some st \<Rightarrow>
             if st = Some ''running'' then (Some (Inr ()), ev)
             else if st = Some ''dead'' then
               (case read_attr (job_id self) of
                  Inl e \<Rightarrow> (Some (Inl e), ev)
                | Inr jid \<Rightarrow>
                    (Some (Inl (PyException
                       (''Job (id='' @ py_str jid @ '') is dead already''))), ev))
             else
               (case read_attr (job_id self) of
                  Inl e \<Rightarrow> (Some (Inl e), ev)
                | Inr jid \<Rightarrow>
                    (case ensure_running_loop fuel nomad_service self get (Suc k) status' of
                       (res, tr) \<Rightarrow> (res, ev @ EvSleep 5 # tr))))"

definition ensure_running ::
  "nat \<Rightarrow> NomadService \<Rightarrow> NomadSpawner \<Rightarrow> (nat \<Rightarrow> job_detail http_result)
     \<Rightarrow> (error + unit) option \<times> event list" where
  "ensure_running fuel nomad_service self get =
     ensure_running_loop fuel nomad_service self get 0 None"

text \<open>
  tenacity's \<^verbatim>\<open>@retry(wait=wait_fixed(w), stop=stop_after_attempt(m))\<close>: attempts are
  numbered from 1; an attempt that returns ends the loop with its value; an attempt that
  raises any exception is followed by the stop check (\<^verbatim>\<open>attempt_number >= m\<close>), which
  raises RetryError around the last exception, or else by a sleep of \<open>w\<close> and the next
  attempt. \<open>fn n\<close> is what attempt \<open>n\<close> of the decorated function does.
\<close>

function retrying ::
  "nat \<Rightarrow> nat \<Rightarrow> nat \<Rightarrow> (nat \<Rightarrow> (error + 'a) \<times> event list) \<Rightarrow> (error + 'a) \<times> event list" where
  "retrying wait_fixed stop_after_attempt attempt_number fn =
     (case fn attempt_number of
        (Inr v, tr) \<Rightarrow> (Inr v, tr)
      | (Inl e, tr) \<Rightarrow>
          if stop_after_attempt \<le> attempt_number then (Inl (RetryError e), tr)
          else
            (case retrying wait_fixed stop_after_attempt (Suc attempt_number) fn of
               (res, tr') \<Rightarrow> (res, tr @ EvSleep wait_fixed # tr')))"
  by pat_completeness auto
termination
  by (relation "measure (\<lambda>(w, m, n, f). m - n)") auto

declare retrying.simps [simp del]

text \<open>
  The body of \<open>service\<close>, one attempt: it reads \<^verbatim>\<open>self.service_name\<close>, asks the registry
  and takes the address and the port of \<^verbatim>\<open>nodes[0]\<close>, which raises IndexError on the empty
  list.
\<close>

definition service_body ::
  "NomadSpawner \<Rightarrow> error + health_node list \<Rightarrow> (error + string \<times> int) \<times> event list" where
  "service_body self health_result =
     (case read_attr (service_name self) of
        Inl e \<Rightarrow> (Inl e, [])
      | Inr sname \<Rightarrow>
          ((case health_result of
              Inl e \<Rightarrow> Inl e
            | Inr nodes \<Rightarrow>
                (case nodes of
                   [] \<Rightarrow> Inl IndexError
                 | n # rest \<Rightarrow> Inr (Address (Service n), Port (Service n)))),
           [EvHealthService sname health_result]))"

text \<open>
  \<open>service\<close> with its decorator \<^verbatim>\<open>@retry(wait=wait_fixed(3), stop=stop_after_attempt(5))\<close>.
  \<open>health n\<close> is the answer of the registry to the query of attempt \<open>n\<close>.
\<close>

definition service ::
  "NomadSpawner \<Rightarrow> (nat \<Rightarrow> error + health_node list) \<Rightarrow> (error + string \<times> int) \<times> event list" where
  "service self health = retrying 3 5 1 (\<lambda>n. service_body self (health n))"

text \<open>
  The options of a spawn, with the keys that \<open>options_from_form\<close> sets; the three volume
  fields are \<^verbatim>\<open>None\<close> when the form does not send them.
\<close>

record user_options =
  image_option :: string
  datacenters :: "string list"
  memory :: int
  volume_type :: string
  volume_source :: "string option"
  volume_destination :: "string option"
  volume_csi_plugin_id :: "string option"

text \<open>
  Modelled from the spec: \<^verbatim>\<open>JobVolumeData\<close>, \<^verbatim>\<open>JobData\<close> and \<^verbatim>\<open>create_job\<close> of
  job\_factory.py are not under src/. The two classes are records of the keyword arguments
  that \<open>start\<close> passes; \<^verbatim>\<open>create_job\<close>, the pure mapping from the job data to the job
  specification, is a parameter, as is the SHA-1 of hashlib.
\<close>

record JobVolumeData =
  vd_type :: string
  vd_destination :: "string option"
  vd_source :: "string option"

record JobData =
  jd_username :: string
  jd_env :: "(string \<times> string) list"
  jd_args :: "string list"
  jd_image :: string
  jd_datacenters :: "string list"
  jd_memory :: int
  jd_volume_data :: "JobVolumeData option"

record collaborators =
  sha1_hexdigest :: "string \<Rightarrow> string"
  create_job :: "JobData \<Rightarrow> error + string"

text \<open>
  What one call of \<open>start\<close> reads from the spawner and its base class: the user's name,
  the server name, the results of \<^verbatim>\<open>get_env()\<close> and \<^verbatim>\<open>get_args()\<close>, and the options.
\<close>

record start_call =
  user_name :: string
  server_name :: string
  env :: "(string \<times> string) list"
  args :: "string list"
  options :: user_options

text \<open>
  The answers of the two remote systems during one call of \<open>start\<close>: the scheduler's
  answer to the volume creation, to the parse and to the registration of the job, to the
  status request number \<open>k\<close> (from 0), and the registry's answer to the query of attempt
  \<open>n\<close> (from 1).
\<close>

record remote =
  put_volume_create :: "unit http_result"
  post_jobs_parse :: "parsed_job http_result"
  post_jobs :: "unit http_result"
  get_job :: "nat \<Rightarrow> job_detail http_result"
  health_service :: "nat \<Rightarrow> error + health_node list"

text \<open>
  \<^verbatim>\<open>job_id, job_name = <str>\<close>: unpacking a string into two targets iterates over its
  characters; it succeeds only for a string of exactly two characters and raises
  ValueError otherwise.
\<close>

definition unpack_pair :: "string \<Rightarrow> error + string \<times> string" where
  "unpack_pair ret = (case ret of [a, b] \<Rightarrow> Inr ([a], [b]) | _ \<Rightarrow> Inl ValueError)"

text \<open>The volume block of \<open>start\<close> (\<^verbatim>\<open>if self.user_options["volume_type"]:\<close>).\<close>

definition start_volume ::
  "NomadService \<Rightarrow> user_options \<Rightarrow> string \<Rightarrow> unit http_result
     \<Rightarrow> (error + JobVolumeData option) \<times> event list" where
  "start_volume nomad_service opts nid put_result =
     (if volume_type opts \<noteq> [] then
        if volume_type opts = ''csi'' then
          (let volume_id = ''notebook-'' @ nid
           in case create_volume nomad_service volume_id (volume_csi_plugin_id opts) put_result of
                Inl e \<Rightarrow> (Inl e, [EvCreateVolume volume_id])
              | Inr u \<Rightarrow>
                  (Inr (Some \<lparr>vd_type = ''csi'', vd_destination = volume_destination opts,
                              vd_source = Some volume_id\<rparr>),
                   [EvCreateVolume volume_id]))
        else if volume_type opts = ''host'' then
          (Inr (Some \<lparr>vd_type = ''host'', vd_destination = volume_destination opts,
                      vd_source = volume_source opts\<rparr>), [])
        else (Inr None, [])
      else (Inr None, []))"

text \<open>
  The \<^verbatim>\<open>try\<close> block of \<open>start\<close>, with the scheduler client already constructed. The
  result is \<open>None\<close> while \<open>_ensure_running\<close> is still polling when the fuel is used up,
  \<open>Some (Inl e)\<close> when \<open>start\<close> raises \<open>e\<close> (the \<^verbatim>\<open>except\<close> clause logs and re-raises) and
  \<open>Some (Inr endpoint)\<close> when it returns. Assignments to \<^verbatim>\<open>self\<close> made before a raise stay.
\<close>

definition start_try ::
  "NomadService \<Rightarrow> NomadSpawner \<Rightarrow> start_call \<Rightarrow> collaborators \<Rightarrow> remote \<Rightarrow> nat
     \<Rightarrow> (error + string \<times> int) option \<times> NomadSpawner \<times> event list" where
  "start_try nomad_service self call deps rem fuel =
     (let nid = take 10 (sha1_hexdigest deps (user_name call @ '':'' @ server_name call))
      in case start_volume nomad_service (options call) nid (put_volume_create rem) of
           (Inl e, tr1) \<Rightarrow> (Some (Inl e), self, tr1)
         | (Inr volume_data, tr1) \<Rightarrow>
             (case create_job deps
                     \<lparr>jd_username = nid, jd_env = env call, jd_args = args call,
                      jd_image = image_option (options call),
                      jd_datacenters = datacenters (options call),
                      jd_memory = memory (options call),
                      jd_volume_data = volume_data\<rparr> of
                Inl e \<Rightarrow> (Some (Inl e), self, tr1)
              | Inr job_hcl \<Rightarrow>
                  (case schedule_job nomad_service job_hcl (post_jobs_parse rem) (post_jobs rem) of
                     Inl e \<Rightarrow> (Some (Inl e), self, tr1 @ [EvScheduleJob job_hcl])
                   | Inr ret \<Rightarrow>
                       (case unpack_pair ret of
                          Inl e \<Rightarrow> (Some (Inl e), self, tr1 @ [EvScheduleJob job_hcl])
                        | Inr (jid, jname) \<Rightarrow>
                            (let self1 = self\<lparr>job_id := Value (Some jid),
                                              job_name := Value (Some jname),
                                              notebook_id := Value (Some nid)\<rparr>
                             in case ensure_running fuel nomad_service self1 (get_job rem) of
                                  (None, tr2) \<Rightarrow>
                                    (None, self1, tr1 @ EvScheduleJob job_hcl # tr2)
                                | (Some (Inl e), tr2) \<Rightarrow>
                                    (Some (Inl e), self1, tr1 @ EvScheduleJob job_hcl # tr2)
                                | (Some (Inr u), tr2) \<Rightarrow>
                                    (let self2 = self1\<lparr>service_name :=
                                                         Value (Some (jid @ ''-notebook''))\<rparr>
                                     in case service self2 (health_service rem) of
                                          (res, tr3) \<Rightarrow>
                                            (Some res, self2,
                                             tr1 @ EvScheduleJob job_hcl # tr2 @ tr3)))))))"

text \<open>
  \<open>start\<close> for a given outcome of the expression \<^verbatim>\<open>NomadService(client=..., log=self.log)\<close>,
  which stands before the \<^verbatim>\<open>try\<close>: when the constructor raises, \<open>start\<close> raises with
  it and nothing else happens; otherwise the \<^verbatim>\<open>try\<close> block runs and the \<^verbatim>\<open>finally\<close>
  clause closes both HTTP clients.
\<close>

definition start_with ::
  "error + NomadService \<Rightarrow> NomadSpawner \<Rightarrow> start_call \<Rightarrow> collaborators \<Rightarrow> remote \<Rightarrow> nat
     \<Rightarrow> (error + string \<times> int) option \<times> NomadSpawner \<times> event list" where
  "start_with constructed self call deps rem fuel =
     (case constructed of
        Inl e \<Rightarrow> (Some (Inl e), self, [])
      | Inr nomad_service \<Rightarrow>
          (case start_try nomad_service self call deps rem fuel of
             (None, self', tr) \<Rightarrow> (None, self', tr)
           | (Some res, self', tr) \<Rightarrow>
               (Some res, self', tr @ [EvClose NomadClient, EvClose ConsulClient])))"

text \<open>
  The source calls the constructor with \<^verbatim>\<open>client\<close> and \<^verbatim>\<open>log\<close> only, in \<open>start\<close>, in
  \<open>poll\<close> and in \<open>stop\<close>.
\<close>

definition start ::
  "NomadSpawner \<Rightarrow> start_call \<Rightarrow> collaborators \<Rightarrow> remote \<Rightarrow> nat
     \<Rightarrow> (error + string \<times> int) option \<times> NomadSpawner \<times> event list" where
  "start = start_with (NomadService_init None)"

text \<open>
  \<open>poll\<close> returns \<^verbatim>\<open>None\<close>, the status or \<^verbatim>\<open>-1\<close>; a status that is \<^verbatim>\<open>None\<close> (JSON
  null) is returned as it is, the same value as for a running job. The \<^verbatim>\<open>except Exception\<close>
  clause covers the whole \<^verbatim>\<open>try\<close> block: the read of \<^verbatim>\<open>self.job_id\<close>, the status query
  and the read of \<^verbatim>\<open>self.job_name\<close> for the warning.
\<close>

datatype poll_result = PollNone | PollStatus string | PollInt int

definition poll_with ::
  "error + NomadService \<Rightarrow> NomadSpawner \<Rightarrow> job_detail http_result \<Rightarrow> error + poll_result" where
  "poll_with constructed self get_result =
     (case constructed of
        Inl e \<Rightarrow> Inl e
      | Inr nomad_service \<Rightarrow>
          (case (case read_attr (job_id self) of
                   Inl e \<Rightarrow> Inl e
                 | Inr jid \<Rightarrow> job_status nomad_service jid get_result) of
             Inl e \<Rightarrow> Inr (PollInt (- 1))
           | Inr status \<Rightarrow>
               if status \<noteq> Some ''running'' then
                 (case read_attr (job_name self) of
                    Inl e \<Rightarrow> Inr (PollInt (- 1))
                  | Inr jname \<Rightarrow>
                      Inr (case status of None \<Rightarrow> PollNone | Some st \<Rightarrow> PollStatus st))
               else Inr PollNone))"

definition poll :: "NomadSpawner \<Rightarrow> job_detail http_result \<Rightarrow> error + poll_result" where
  "poll = poll_with (NomadService_init None)"

text \<open>
  \<open>stop\<close>: \<open>clear_state\<close> is the statement after the delete call inside the \<^verbatim>\<open>try\<close>
  block; the \<^verbatim>\<open>except Exception\<close> clause logs and does not re-raise.
\<close>

definition stop_with ::
  "error + NomadService \<Rightarrow> NomadSpawner \<Rightarrow> unit http_result \<Rightarrow> (error + unit) \<times> NomadSpawner" where
  "stop_with constructed self delete_result =
     (case constructed of
        Inl e \<Rightarrow> (Inl e, self)
      | Inr nomad_service \<Rightarrow>
          (case (case read_attr (job_id self) of
                   Inl e \<Rightarrow> Inl e
                 | Inr jid \<Rightarrow> delete_job nomad_service jid None delete_result) of
             Inl e \<Rightarrow> (Inr (), self)
           | Inr u \<Rightarrow> (Inr (), clear_state self)))"

definition stop :: "NomadSpawner \<Rightarrow> unit http_result \<Rightarrow> (error + unit) \<times> NomadSpawner" where
  "stop = stop_with (NomadService_init None)"

section \<open>Properties of a trace\<close>

fun is_registry_query :: "event \<Rightarrow> bool" where
  "is_registry_query (EvHealthService sname answer) = True"
| "is_registry_query e = False"

definition reported_running :: "event list \<Rightarrow> bool" where
  "reported_running tr = (\<exists>jid. EvJobStatus jid (Inr (Some ''running'')) \<in> set tr)"

definition registry_after_running :: "event list \<Rightarrow> bool" where
  "registry_after_running tr =
     (\<forall>pre e post. tr = pre @ e # post \<and> is_registry_query e \<longrightarrow> reported_running pre)"

section \<open>Concrete sessions and answers\<close>

definition svc0 :: NomadService where
  "svc0 = \<lparr>namespace = ''default''\<rparr>"

definition fresh_session :: NomadSpawner where
  "fresh_session =
     \<lparr>job_id = Unset, job_name = Unset, service_name = Unset, notebook_id = Unset\<rparr>"

definition started_session :: NomadSpawner where
  "started_session =
     \<lparr>job_id = Value (Some ''jupyter-notebook-0a1b2c3d4e''),
      job_name = Value (Some ''jupyter-notebook-0a1b2c3d4e''),
      service_name = Value (Some ''jupyter-notebook-0a1b2c3d4e-notebook''),
      notebook_id = Value (Some ''0a1b2c3d4e'')\<rparr>"

definition server_error :: "'a response" where
  "server_error = \<lparr>status_code = 500, resp_text = ''rpc error'', json = None\<rparr>"

definition ok_empty :: "unit response" where
  "ok_empty = \<lparr>status_code = 200, resp_text = ''{}'', json = Some ()\<rparr>"

definition already_exists_text :: string where
  "already_exists_text =
     ''rpc error: '' @ marker_access_point @ '' for volume notebook-0a1b2c3d4e''"

definition already_exists_response :: "unit response" where
  "already_exists_response =
     \<lparr>status_code = 500, resp_text = already_exists_text, json = None\<rparr>"

definition status_response :: "string \<Rightarrow> job_detail response" where
  "status_response st =
     \<lparr>status_code = 200, resp_text = ''{...}'', json = Some \<lparr>Status = Some (Some st)\<rparr>\<rparr>"

definition parsed_response :: "string \<Rightarrow> parsed_job response" where
  "parsed_response jid =
     \<lparr>status_code = 200, resp_text = ''{...}'', json = Some \<lparr>ID = Some jid\<rparr>\<rparr>"

definition no_allocations :: "allocation list response" where
  "no_allocations = \<lparr>status_code = 200, resp_text = ''[]'', json = Some []\<rparr>"

definition task :: "string \<Rightarrow> bool \<Rightarrow> string list \<Rightarrow> TaskState" where
  "task st failed event_types =
     \<lparr>State = st, Failed = failed, Events = Some (map (\<lambda>ty. \<lparr>Type = ty\<rparr>) event_types)\<rparr>"

text \<open>Two allocations; the later one carries the given task states.\<close>

definition allocations_response :: "(string \<times> TaskState) list \<Rightarrow> allocation list response" where
  "allocations_response ts =
     \<lparr>status_code = 200, resp_text = ''[...]'',
      json = Some [\<lparr>CreateTime = 1700000000, TaskStates = Some []\<rparr>,
                   \<lparr>CreateTime = 1700000900, TaskStates = Some ts\<rparr>]\<rparr>"

definition tasks_all_running :: "(string \<times> TaskState) list" where
  "tasks_all_running =
     [(''proxy'', task ''running'' False [''Received'', ''Task Setup'', ''Started'']),
      (''notebook'', task ''running'' False [''Received'', ''Task Setup'', ''Started''])]"

definition tasks_dead_second :: "(string \<times> TaskState) list" where
  "tasks_dead_second =
     [(''proxy'', task ''running'' False [''Received'', ''Task Setup'', ''Started'']),
      (''notebook'', task ''dead'' True [''Received'', ''Task Setup'', ''Terminated'']),
      (''sidecar'', task ''pending'' False [''Received''])]"

definition tasks_pending_then_dead :: "(string \<times> TaskState) list" where
  "tasks_pending_then_dead =
     [(''sidecar'', task ''pending'' False [''Received'']),
      (''notebook'', task ''dead'' True [''Received'', ''Task Setup'', ''Terminated''])]"

definition node_a :: health_node where
  "node_a = \<lparr>Service = \<lparr>Address = ''10.0.0.7'', Port = 8888\<rparr>\<rparr>"

definition node_b :: health_node where
  "node_b = \<lparr>Service = \<lparr>Address = ''10.0.0.9'', Port = 8888\<rparr>\<rparr>"

definition call0 :: start_call where
  "call0 =
     \<lparr>user_name = ''alice'', server_name = [], env = [], args = [],
      options = \<lparr>image_option = ''org/image:tag'', datacenters = [''dc1''], memory = 512,
                 volume_type = [], volume_source = None, volume_destination = None,
                 volume_csi_plugin_id = None\<rparr>\<rparr>"

text \<open>
  Stand-ins for the two collaborators: a digest whose first ten characters are
  \<^verbatim>\<open>0a1b2c3d4e\<close>, and a job factory that returns a text naming the notebook.
\<close>

definition deps0 :: collaborators where
  "deps0 =
     \<lparr>sha1_hexdigest = (\<lambda>s. ''0a1b2c3d4e5f60718293a4b5c6d7e8f901234567''),
      create_job = (\<lambda>jd. Inr (''job for '' @ jd_username jd))\<rparr>"

text \<open>
  A scheduler that parses the job to the given id, registers it, reports \<^verbatim>\<open>pending\<close> at
  the first status request and \<^verbatim>\<open>running\<close> from the second, and a registry with one
  healthy instance.
\<close>

definition remote0 :: "string \<Rightarrow> remote" where
  "remote0 jid =
     \<lparr>put_volume_create = Inr ok_empty,
      post_jobs_parse = Inr (parsed_response jid),
      post_jobs = Inr ok_empty,
      get_job = (\<lambda>k. Inr (status_response (if k = 0 then ''pending'' else ''running''))),
      health_service = (\<lambda>n. Inr [node_a])\<rparr>"

section \<open>Volume creation is idempotent\<close>

text \<open>
  C8. For every volume id and every response of the scheduler to the create request,
  \<open>create_volume\<close> raises exactly when the response is an error (status 400 to 599) whose
  body contains neither of the two conflict markers, which in the source are the strings
  \<^verbatim>\<open>ErrorCode: "AccessPointAlreadyExists"\<close> and \<^verbatim>\<open>volume external ID cannot be updated\<close>.
  Hence a repeated create call that is answered with the already-exists error returns
  without raising.
\<close>

theorem create_volume_raises_iff:
  "((\<exists>e. create_volume self vid plugin_id (Inr r) = Inl e) \<longleftrightarrow>
      (is_error r \<and> \<not> str_in marker_access_point (resp_text r)
                 \<and> \<not> str_in marker_external_id (resp_text r)))
   \<and> (is_error r \<and> (str_in marker_access_point (resp_text r)
                     \<or> str_in marker_external_id (resp_text r))
        \<longrightarrow> create_volume self vid plugin_id (Inr r) = Inr ())"
  by (simp add: create_volume_def)

text \<open>A status 500 whose body carries the first marker: the call returns.\<close>

theorem create_volume_raises_iff_witness:
  "is_error already_exists_response
   \<and> str_in marker_access_point (resp_text already_exists_response)
   \<and> create_volume svc0 ''notebook-0a1b2c3d4e'' (Some ''efs'')
        (Inr already_exists_response) = Inr ()"
proof -
  have e: "is_error already_exists_response"
    by (simp add: is_error_def already_exists_response_def)
  have "sublist marker_access_point already_exists_text"
    unfolding already_exists_text_def by (rule sublist_appendI)
  then have m: "str_in marker_access_point (resp_text already_exists_response)"
    by (simp add: str_in_def already_exists_response_def)
  from e m create_volume_raises_iff
         [of svc0 "''notebook-0a1b2c3d4e''" "Some ''efs''" already_exists_response]
  show ?thesis by blast
qed

section \<open>Job submission\<close>

text \<open>
  C2. \<open>schedule_job\<close> is annotated \<^verbatim>\<open>-> Tuple[str, str]\<close> and \<open>start\<close> unpacks its result
  into \<^verbatim>\<open>job_id, job_name\<close>, but the method returns the id alone. For a job that the
  scheduler parses to the id \<^verbatim>\<open>jupyter-notebook-0a1b2c3d4e\<close> and registers, the method
  returns that one string, and the \<^verbatim>\<open>try\<close> block of \<open>start\<close> raises ValueError at the
  unpacking, with no identity attribute assigned and no status request sent.
\<close>

theorem schedule_job_returns_one_string:
  "schedule_job svc0 ''job for 0a1b2c3d4e''
       (Inr (parsed_response ''jupyter-notebook-0a1b2c3d4e'')) (Inr ok_empty)
     = Inr ''jupyter-notebook-0a1b2c3d4e''
   \<and> start_with (Inr svc0) fresh_session call0 deps0
         (remote0 ''jupyter-notebook-0a1b2c3d4e'') 2
     = (Some (Inl ValueError), fresh_session,
        [EvScheduleJob ''job for 0a1b2c3d4e'', EvClose NomadClient, EvClose ConsulClient])"
  by (simp add: start_with_def start_try_def start_volume_def call0_def deps0_def remote0_def
        parsed_response_def ok_empty_def schedule_job_def is_error_def unpack_pair_def Let_def)

section \<open>Status derivation from the latest allocation\<close>

lemma task_status_loop_all_running:
  "\<forall>t\<in>set tasks. State t = ''running'' \<Longrightarrow> task_status_loop tasks = ''running''"
  by (induction tasks) auto

lemma task_status_loop_dead:
  "\<forall>p\<in>set before. State p = ''running'' \<Longrightarrow> State t = ''dead'' \<Longrightarrow> Failed t \<Longrightarrow>
   task_status_loop (before @ t # rest) = ''dead''"
  by (induction before) auto

lemma task_status_latest:
  assumes "json r = Some allocs" and "py_max CreateTime allocs = Inr latest"
    and "TaskStates latest = Some ts" and "ts \<noteq> []"
  shows "task_status nomad_service jname (Inr r) = Inr (task_status_loop (map snd ts))"
  using assms by (simp add: task_status_def response_truthy_def)

lemma latest_allocation:
  "py_max CreateTime [\<lparr>CreateTime = 1700000000, TaskStates = Some []\<rparr>,
                      \<lparr>CreateTime = 1700000900, TaskStates = Some ts\<rparr>]
     = Inr \<lparr>CreateTime = 1700000900, TaskStates = Some ts\<rparr>"
  by (simp add: py_max_def)

text \<open>
  C3, as stated, fails twice. The loop returns at the first task that is not running, so
  a task that is dead and failed is not seen when a pending task stands before it: the
  status is then that of the pending task. And a latest allocation with no task, in which
  every task reports running, gives \<^verbatim>\<open>pending\<close>.
\<close>

theorem task_status_dead_counterexample:
  "State (snd (tasks_pending_then_dead ! 1)) = ''dead''
   \<and> Failed (snd (tasks_pending_then_dead ! 1))
   \<and> task_status svc0 ''nb'' (Inr (allocations_response tasks_pending_then_dead))
       = Inr ''pending''
   \<and> task_status svc0 ''nb'' (Inr (allocations_response [])) = Inr ''pending''"
  by (simp add: tasks_pending_then_dead_def task_def task_status_def allocations_response_def
        response_truthy_def py_max_def get_task_state_from_event_def)

text \<open>
  C3, amended. For every answer of the allocations query whose latest allocation has at
  least one task: when every task reports \<^verbatim>\<open>running\<close>, \<open>task_status\<close> returns
  \<^verbatim>\<open>running\<close>; and when a task is dead and failed and every task before it, in the order
  of the document, reports \<^verbatim>\<open>running\<close>, it returns \<^verbatim>\<open>dead\<close>, whatever the tasks after
  it are.
\<close>

theorem task_status_first_decides:
  "json r = Some allocs \<Longrightarrow> py_max CreateTime allocs = Inr latest \<Longrightarrow>
   TaskStates latest = Some ts \<Longrightarrow> ts \<noteq> [] \<Longrightarrow>
     ((\<forall>t\<in>set (map snd ts). State t = ''running'')
        \<longrightarrow> task_status nomad_service jname (Inr r) = Inr ''running'')
   \<and> ((\<exists>before t rest. map snd ts = before @ t # rest
            \<and> (\<forall>p\<in>set before. State p = ''running'') \<and> State t = ''dead'' \<and> Failed t)
        \<longrightarrow> task_status nomad_service jname (Inr r) = Inr ''dead'')"
proof (intro conjI impI)
  assume a: "json r = Some allocs" "py_max CreateTime allocs = Inr latest"
            "TaskStates latest = Some ts" "ts \<noteq> []"
  note eq = task_status_latest[OF a, of nomad_service jname]
  {
    assume "\<forall>t\<in>set (map snd ts). State t = ''running''"
    then show "task_status nomad_service jname (Inr r) = Inr ''running''"
      unfolding eq by (simp only: task_status_loop_all_running)
  }
  {
    assume "\<exists>before t rest. map snd ts = before @ t # rest
            \<and> (\<forall>p\<in>set before. State p = ''running'') \<and> State t = ''dead'' \<and> Failed t"
    then obtain before t rest where "map snd ts = before @ t # rest"
      "\<forall>p\<in>set before. State p = ''running''" "State t = ''dead''" "Failed t"
      by blast
    then show "task_status nomad_service jname (Inr r) = Inr ''dead''"
      unfolding eq by (simp only: task_status_loop_dead)
  }
qed

text \<open>
  Two running tasks give \<^verbatim>\<open>running\<close>; a running task, then a dead and failed one, then a
  pending one give \<^verbatim>\<open>dead\<close>.
\<close>

theorem task_status_first_decides_witness:
  "map (State \<circ> snd) tasks_all_running = [''running'', ''running'']
   \<and> task_status svc0 ''nb'' (Inr (allocations_response tasks_all_running)) = Inr ''running''
   \<and> map snd tasks_dead_second =
        [task ''running'' False [''Received'', ''Task Setup'', ''Started'']]
        @ task ''dead'' True [''Received'', ''Task Setup'', ''Terminated'']
        # [task ''pending'' False [''Received'']]
   \<and> task_status svc0 ''nb'' (Inr (allocations_response tasks_dead_second)) = Inr ''dead''"
proof -
  have run: "\<forall>t\<in>set (map snd tasks_all_running). State t = ''running''"
    by (simp add: tasks_all_running_def task_def)
  have parts: "map snd tasks_dead_second =
        [task ''running'' False [''Received'', ''Task Setup'', ''Started'']]
        @ task ''dead'' True [''Received'', ''Task Setup'', ''Terminated'']
        # [task ''pending'' False [''Received'']]"
    by (simp add: tasks_dead_second_def)
  have dead: "\<exists>before t rest. map snd tasks_dead_second = before @ t # rest
            \<and> (\<forall>p\<in>set before. State p = ''running'') \<and> State t = ''dead'' \<and> Failed t"
    apply (rule exI[of _ "[task ''running'' False [''Received'', ''Task Setup'', ''Started'']]"])
    apply (rule exI[of _ "task ''dead'' True [''Received'', ''Task Setup'', ''Terminated'']"])
    apply (rule exI[of _ "[task ''pending'' False [''Received'']]"])
    apply (simp add: parts)
    apply (simp add: task_def)
    done
  have j: "json (allocations_response ts) =
             Some [\<lparr>CreateTime = 1700000000, TaskStates = Some []\<rparr>,
                   \<lparr>CreateTime = 1700000900, TaskStates = Some ts\<rparr>]" for ts
    by (simp add: allocations_response_def)
  have t: "TaskStates \<lparr>CreateTime = 1700000900, TaskStates = Some ts\<rparr> = Some ts"
    for ts :: "(string \<times> TaskState) list"
    by simp
  have n1: "tasks_all_running \<noteq> []" by (simp add: tasks_all_running_def)
  have n2: "tasks_dead_second \<noteq> []" by (simp add: tasks_dead_second_def)
  from task_status_first_decides [OF j latest_allocation t n1, of svc0 "''nb''"] run
  have r1: "task_status svc0 ''nb'' (Inr (allocations_response tasks_all_running))
              = Inr ''running''"
    by blast
  from task_status_first_decides [OF j latest_allocation t n2, of svc0 "''nb''"] dead
  have r2: "task_status svc0 ''nb'' (Inr (allocations_response tasks_dead_second))
              = Inr ''dead''"
    by blast
  have states: "map (State \<circ> snd) tasks_all_running = [''running'', ''running'']"
    by (simp add: tasks_all_running_def task_def)
  from states r1 parts r2 show ?thesis by (intro conjI)
qed

text \<open>
  C5. The guard \<^verbatim>\<open>if not allocs\<close> tests the response object, which is truthy, not the
  decoded list. For an allocations query answered with status 200 and the empty list
  \<open>task_status\<close> reaches \<^verbatim>\<open>max(allocs, ...)\<close> on the empty list and raises ValueError.
\<close>

theorem task_status_no_allocations_raises:
  "task_status svc0 ''jupyter-notebook-0a1b2c3d4e'' (Inr no_allocations) = Inl ValueError"
  by (simp add: task_status_def no_allocations_def response_truthy_def py_max_def)

section \<open>Waiting for the job\<close>

lemma ensure_running_first_failure:
  "job_id self = Value jid \<Longrightarrow> job_status nomad_service jid (get 0) = Inl e \<Longrightarrow>
   ensure_running (Suc fuel) nomad_service self get
     = (Some (Inl UnboundLocalError), [EvJobStatus jid (Inl e)])"
  by (simp add: ensure_running_def read_attr_def)

text \<open>
  C10. When the first status query of \<open>_ensure_running\<close> raises, the \<^verbatim>\<open>except\<close> clause
  logs it and the comparison \<^verbatim>\<open>status == "running"\<close> reads a variable that no assignment
  has bound: for a scheduler that answers the status request with status 500 the loop
  raises UnboundLocalError after that one request, with no sleep and no second request.
\<close>

theorem ensure_running_unbound_status:
  "ensure_running 3 svc0 started_session (\<lambda>k. Inr server_error)
     = (Some (Inl UnboundLocalError),
        [EvJobStatus (Some ''jupyter-notebook-0a1b2c3d4e'')
           (Inl (NomadException ''Error getting job status: rpc error''))])"
  by (simp add: ensure_running_def numeral_3_eq_3 started_session_def read_attr_def
        job_status_def server_error_def is_error_def)

section \<open>Resolving the endpoint\<close>

lemma retrying_return:
  "fn n = (Inr v, tr) \<Longrightarrow> retrying w m n fn = (Inr v, tr)"
  by (subst retrying.simps) simp

lemma retrying_give_up:
  "fn n = (Inl e, tr) \<Longrightarrow> m \<le> n \<Longrightarrow> retrying w m n fn = (Inl (RetryError e), tr)"
  by (subst retrying.simps) simp

lemma retrying_again:
  "fn n = (Inl e, tr) \<Longrightarrow> n < m \<Longrightarrow> retrying w m (Suc n) fn = (res, tr')
     \<Longrightarrow> retrying w m n fn = (res, tr @ EvSleep w # tr')"
  by (subst retrying.simps) simp

lemma retrying_queries:
  "(\<And>n. length (filter is_registry_query (snd (fn n))) \<le> 1) \<Longrightarrow>
   length (filter is_registry_query (snd (retrying w m n fn))) \<le> Suc (m - n)"
proof (induction w m n fn rule: retrying.induct)
  case (1 w m n fn)
  obtain r tr where f: "fn n = (r, tr)" by (cases "fn n")
  have l: "length (filter is_registry_query tr) \<le> 1" using "1.prems"[of n] f by simp
  show ?case
  proof (cases r)
    case (Inr v)
    with f l show ?thesis by (subst retrying.simps) simp
  next
    case (Inl e)
    show ?thesis
    proof (cases "m \<le> n")
      case True
      with f l Inl show ?thesis by (subst retrying.simps) simp
    next
      case False
      obtain r' tr' where rec: "retrying w m (Suc n) fn = (r', tr')"
        by (cases "retrying w m (Suc n) fn")
      have "length (filter is_registry_query tr') \<le> Suc (m - Suc n)"
        using "1.IH"[OF f[symmetric] Inl False] "1.prems" rec by simp
      with f l Inl False rec show ?thesis
        by (subst retrying.simps) simp
    qed
  qed
qed

lemma service_at_most_five:
  "length (filter is_registry_query (snd (service self health))) \<le> 5"
proof -
  have "length (filter is_registry_query (snd (service_body self (health n)))) \<le> 1" for n
    by (simp add: service_body_def split: sum.split)
  from retrying_queries[of "\<lambda>n. service_body self (health n)" 3 5 1, OF this]
  show ?thesis by (simp add: service_def)
qed

text \<open>
  C4. \<open>service\<close> takes \<^verbatim>\<open>nodes[0]\<close> and never looks at the length of the list. For a
  registry that answers with two healthy instances it returns the address and the port of
  the first one at the first attempt, with no error. The scheduler client's
  \<open>get_service_address\<close>, which \<open>start\<close> does not call, raises for two entries.
\<close>

theorem service_takes_first_of_two:
  "service started_session (\<lambda>n. Inr [node_a, node_b])
     = (Inr (''10.0.0.7'', 8888),
        [EvHealthService (Some ''jupyter-notebook-0a1b2c3d4e-notebook'')
           (Inr [node_a, node_b])])
   \<and> get_service_address svc0 ''jupyter-notebook-0a1b2c3d4e-notebook''
        (Inr \<lparr>status_code = 200, resp_text = ''[...]'',
              json = Some [Service node_a, Service node_b]\<rparr>)
     = Inl (NomadException
              ''Multiple services found for jupyter-notebook-0a1b2c3d4e-notebook'')"
  by (simp add: service_def retrying.simps service_body_def started_session_def read_attr_def
        node_a_def get_service_address_def is_error_def)

text \<open>
  C7. For a spawner whose service name is set: when the registry answers the five queries
  with the empty list, \<open>service\<close> makes five attempts, with a wait of 3 between two
  attempts, and then fails, with tenacity's RetryError around the IndexError that
  \<^verbatim>\<open>nodes[0]\<close> raises on the empty list; when the first answer has exactly one instance,
  \<open>service\<close> returns that instance's address and port after that one query; and whatever
  the registry answers, it is queried at most five times.
\<close>

theorem service_retries_five_times:
  "service_name self = Value sname \<Longrightarrow>
     ((\<forall>n\<in>{1..5}. health n = Inr []) \<longrightarrow>
        service self health =
          (Inl (RetryError IndexError),
           [EvHealthService sname (Inr []), EvSleep 3,
            EvHealthService sname (Inr []), EvSleep 3,
            EvHealthService sname (Inr []), EvSleep 3,
            EvHealthService sname (Inr []), EvSleep 3,
            EvHealthService sname (Inr [])]))
   \<and> (health 1 = Inr [node] \<longrightarrow>
        service self health =
          (Inr (Address (Service node), Port (Service node)),
           [EvHealthService sname (Inr [node])]))
   \<and> length (filter is_registry_query (snd (service self health))) \<le> 5"
proof (intro conjI impI)
  let ?fn = "\<lambda>n. service_body self (health n)"
  let ?q = "EvHealthService sname (Inr [])"
  assume s: "service_name self = Value sname" and h: "\<forall>n\<in>{1..5}. health n = Inr []"
  have b: "?fn n = (Inl IndexError, [?q])" if "n \<in> {1..5}" for n
    using s h that by (simp add: service_body_def read_attr_def)
  have r5: "retrying 3 5 5 ?fn = (Inl (RetryError IndexError), [?q])"
    by (rule retrying_give_up) (simp_all add: b)
  have r4: "retrying 3 5 4 ?fn = (Inl (RetryError IndexError), [?q] @ EvSleep 3 # [?q])"
    by (rule retrying_again) (simp_all add: b r5)
  have r3: "retrying 3 5 3 ?fn =
              (Inl (RetryError IndexError), [?q] @ EvSleep 3 # [?q, EvSleep 3, ?q])"
    using r4 by (intro retrying_again) (simp_all add: b)
  have r2: "retrying 3 5 2 ?fn =
              (Inl (RetryError IndexError),
               [?q] @ EvSleep 3 # [?q, EvSleep 3, ?q, EvSleep 3, ?q])"
    using r3 by (intro retrying_again) (simp_all add: b)
  have r1: "retrying 3 5 1 ?fn =
              (Inl (RetryError IndexError),
               [?q] @ EvSleep 3 # [?q, EvSleep 3, ?q, EvSleep 3, ?q, EvSleep 3, ?q])"
    using r2 by (intro retrying_again) (simp_all add: b numeral_2_eq_2)
  then show "service self health =
          (Inl (RetryError IndexError),
           [?q, EvSleep 3, ?q, EvSleep 3, ?q, EvSleep 3, ?q, EvSleep 3, ?q])"
    by (simp add: service_def)
next
  assume s: "service_name self = Value sname" and h: "health 1 = Inr [node]"
  have "service_body self (health 1) =
          (Inr (Address (Service node), Port (Service node)),
           [EvHealthService sname (Inr [node])])"
    using s h by (simp add: service_body_def read_attr_def)
  then show "service self health =
          (Inr (Address (Service node), Port (Service node)),
           [EvHealthService sname (Inr [node])])"
    unfolding service_def by (rule retrying_return)
next
  show "length (filter is_registry_query (snd (service self health))) \<le> 5"
    by (rule service_at_most_five)
qed

text \<open>
  A registry that never has an instance, and a registry with one instance at
  \<^verbatim>\<open>10.0.0.7:8888\<close>.
\<close>

theorem service_retries_five_times_witness:
  "service_name started_session = Value (Some ''jupyter-notebook-0a1b2c3d4e-notebook'')
   \<and> service started_session (\<lambda>n. Inr []) =
       (Inl (RetryError IndexError),
        [EvHealthService (Some ''jupyter-notebook-0a1b2c3d4e-notebook'') (Inr []), EvSleep 3,
         EvHealthService (Some ''jupyter-notebook-0a1b2c3d4e-notebook'') (Inr []), EvSleep 3,
         EvHealthService (Some ''jupyter-notebook-0a1b2c3d4e-notebook'') (Inr []), EvSleep 3,
         EvHealthService (Some ''jupyter-notebook-0a1b2c3d4e-notebook'') (Inr []), EvSleep 3,
         EvHealthService (Some ''jupyter-notebook-0a1b2c3d4e-notebook'') (Inr [])])
   \<and> service started_session (\<lambda>n. Inr [node_a]) =
       (Inr (''10.0.0.7'', 8888),
        [EvHealthService (Some ''jupyter-notebook-0a1b2c3d4e-notebook'') (Inr [node_a])])"
proof -
  have s: "service_name started_session = Value (Some ''jupyter-notebook-0a1b2c3d4e-notebook'')"
    by (simp add: started_session_def)
  from service_retries_five_times
         [OF s, of "\<lambda>n. Inr []" node_a]
  have none: "service started_session (\<lambda>n. Inr []) =
       (Inl (RetryError IndexError),
        [EvHealthService (Some ''jupyter-notebook-0a1b2c3d4e-notebook'') (Inr []), EvSleep 3,
         EvHealthService (Some ''jupyter-notebook-0a1b2c3d4e-notebook'') (Inr []), EvSleep 3,
         EvHealthService (Some ''jupyter-notebook-0a1b2c3d4e-notebook'') (Inr []), EvSleep 3,
         EvHealthService (Some ''jupyter-notebook-0a1b2c3d4e-notebook'') (Inr []), EvSleep 3,
         EvHealthService (Some ''jupyter-notebook-0a1b2c3d4e-notebook'') (Inr [])])"
    by simp
  from service_retries_five_times
         [OF s, of "\<lambda>n. Inr [node_a]" node_a]
  have one: "service started_session (\<lambda>n. Inr [node_a]) =
       (Inr (''10.0.0.7'', 8888),
        [EvHealthService (Some ''jupyter-notebook-0a1b2c3d4e-notebook'') (Inr [node_a])])"
    by (simp add: node_a_def)
  from s none one show ?thesis by (intro conjI)
qed

section \<open>The order of the remote calls in start\<close>

lemma rar_no_query:
  "\<forall>e\<in>set tr. \<not> is_registry_query e \<Longrightarrow> registry_after_running tr"
  by (auto simp: registry_after_running_def)

lemma rar_append_quiet:
  assumes "registry_after_running tr" and "\<forall>e\<in>set quiet. \<not> is_registry_query e"
  shows "registry_after_running (tr @ quiet)"
  unfolding registry_after_running_def
proof (intro allI impI, elim conjE)
  fix pre e post
  assume eq: "tr @ quiet = pre @ e # post" and q: "is_registry_query e"
  from eq consider (l) us where "tr = pre @ us" "us @ quiet = e # post"
    | (r) us where "tr @ us = pre" "quiet = us @ e # post"
    by (auto simp: append_eq_append_conv2)
  then show "reported_running pre"
  proof cases
    case l
    show ?thesis
    proof (cases us)
      case Nil
      with l assms(2) q show ?thesis by auto
    next
      case (Cons u us')
      with l have "tr = pre @ e # us'" by simp
      with assms(1) q show ?thesis by (auto simp: registry_after_running_def)
    qed
  next
    case r
    with assms(2) q show ?thesis by auto
  qed
qed

lemma rar_after_running:
  assumes "\<forall>e\<in>set before. \<not> is_registry_query e" and "reported_running before"
  shows "registry_after_running (before @ rest)"
  unfolding registry_after_running_def
proof (intro allI impI, elim conjE)
  fix pre e post
  assume eq: "before @ rest = pre @ e # post" and q: "is_registry_query e"
  from eq consider (l) us where "before = pre @ us" "us @ rest = e # post"
    | (r) us where "before @ us = pre" "rest = us @ e # post"
    by (auto simp: append_eq_append_conv2)
  then show "reported_running pre"
  proof cases
    case l
    show ?thesis
    proof (cases us)
      case Nil
      with l assms(2) show ?thesis by simp
    next
      case (Cons u us')
      with l have "e \<in> set before" by auto
      with assms(1) q show ?thesis by auto
    qed
  next
    case r
    with assms(2) show ?thesis by (auto simp: reported_running_def)
  qed
qed

lemma ensure_running_loop_quiet:
  "\<forall>e\<in>set (snd (ensure_running_loop fuel nomad_service self get k status)).
      \<not> is_registry_query e"
proof (induction fuel arbitrary: k status)
  case 0
  show ?case by simp
next
  case (Suc fuel)
  show ?case
    using Suc.IH
    apply (simp add: Let_def split: option.split sum.split attr.split prod.split)
    apply (auto simp: read_attr_def split: attr.splits)
    apply (metis snd_conv)+
    done
qed

text \<open>
  The loop leaves normally only at a status query that returned \<^verbatim>\<open>running\<close>: the value
  that an earlier iteration left in \<^verbatim>\<open>status\<close> is never \<^verbatim>\<open>running\<close>.
\<close>

lemma ensure_running_loop_running:
  "status \<noteq> Some (Some ''running'') \<Longrightarrow>
   ensure_running_loop fuel nomad_service self get k status = (Some (Inr ()), tr) \<Longrightarrow>
   reported_running tr"
proof (induction fuel arbitrary: k status tr)
  case 0
  then show ?case by simp
next
  case (Suc fuel)
  show ?case
  proof (cases "job_id self")
    case Unset
    with Suc.prems show ?thesis
      by (auto simp: read_attr_def Let_def split: option.splits if_splits)
  next
    case (Value jid)
    show ?thesis
    proof (cases "job_status nomad_service jid (get k)")
      case (Inl e)
      with Suc.prems Value show ?thesis
        using Suc.IH[of status "Suc k"]
        by (auto simp: read_attr_def Let_def reported_running_def
                 split: option.splits if_splits prod.splits)
    next
      case (Inr st)
      with Suc.prems Value show ?thesis
        using Suc.IH[of "Some st" "Suc k"]
        by (auto simp: read_attr_def Let_def reported_running_def
                 split: option.splits if_splits prod.splits)
    qed
  qed
qed

lemma start_volume_quiet:
  "\<forall>e\<in>set (snd (start_volume nomad_service opts nid put_result)). \<not> is_registry_query e"
  by (simp add: start_volume_def Let_def split: sum.split)

lemma start_try_ordered:
  assumes run: "start_try nomad_service self call deps rem fuel = (res, self', tr)"
  shows "registry_after_running tr"
proof -
  define nid where
    "nid = take 10 (sha1_hexdigest deps (user_name call @ '':'' @ server_name call))"
  obtain v tr1 where sv:
    "start_volume nomad_service (options call) nid (put_volume_create rem) = (v, tr1)"
    by (cases "start_volume nomad_service (options call) nid (put_volume_create rem)")
  have q1: "\<forall>e\<in>set tr1. \<not> is_registry_query e"
    using start_volume_quiet[of nomad_service "options call" nid "put_volume_create rem"] sv
    by simp
  show ?thesis
  proof (cases v)
    case (Inl e)
    with run sv have "tr = tr1" by (simp add: start_try_def nid_def)
    with q1 show ?thesis by (simp add: rar_no_query)
  next
    case vd: (Inr volume_data)
    define jd where "jd =
        \<lparr>jd_username = nid, jd_env = env call, jd_args = args call,
         jd_image = image_option (options call),
         jd_datacenters = datacenters (options call),
         jd_memory = memory (options call),
         jd_volume_data = volume_data\<rparr>"
    show ?thesis
    proof (cases "create_job deps jd")
      case (Inl e)
      with run sv vd have "tr = tr1" by (simp add: start_try_def nid_def jd_def)
      with q1 show ?thesis by (simp add: rar_no_query)
    next
      case hcl: (Inr job_hcl)
      show ?thesis
      proof (cases "schedule_job nomad_service job_hcl (post_jobs_parse rem) (post_jobs rem)")
        case (Inl e)
        with run sv vd hcl have "tr = tr1 @ [EvScheduleJob job_hcl]"
          by (simp add: start_try_def nid_def jd_def)
        with q1 show ?thesis by (simp add: rar_no_query)
      next
        case ret: (Inr ret)
        show ?thesis
        proof (cases "unpack_pair ret")
          case (Inl e)
          with run sv vd hcl ret have "tr = tr1 @ [EvScheduleJob job_hcl]"
            by (simp add: start_try_def nid_def jd_def)
          with q1 show ?thesis by (simp add: rar_no_query)
        next
          case (Inr names)
          obtain jid jname where names: "names = (jid, jname)" by (cases names)
          define self1 where "self1 = self\<lparr>job_id := Value (Some jid),
                                              job_name := Value (Some jname),
                                              notebook_id := Value (Some nid)\<rparr>"
          obtain r2 tr2 where er:
            "ensure_running fuel nomad_service self1 (get_job rem) = (r2, tr2)"
            by (cases "ensure_running fuel nomad_service self1 (get_job rem)")
          have q2: "\<forall>e\<in>set tr2. \<not> is_registry_query e"
            using ensure_running_loop_quiet[of fuel nomad_service self1 "get_job rem" 0 None] er
            by (simp add: ensure_running_def)
          have q12: "\<forall>e\<in>set (tr1 @ EvScheduleJob job_hcl # tr2). \<not> is_registry_query e"
            using q1 q2 by auto
          show ?thesis
          proof (cases "r2 = Some (Inr ())")
            case False
            with run sv vd hcl ret Inr names er have "tr = tr1 @ EvScheduleJob job_hcl # tr2"
              by (cases r2; cases "the r2")
                 (simp_all add: start_try_def nid_def jd_def self1_def Let_def)
            with q12 show ?thesis by (simp add: rar_no_query)
          next
            case True
            with er have "reported_running tr2"
              using ensure_running_loop_running
                      [of None fuel nomad_service self1 "get_job rem" 0 tr2]
              by (simp add: ensure_running_def)
            then have rr: "reported_running (tr1 @ EvScheduleJob job_hcl # tr2)"
              by (auto simp: reported_running_def)
            define self2 where
              "self2 = self1\<lparr>service_name := Value (Some (jid @ ''-notebook''))\<rparr>"
            obtain r3 tr3 where sv3: "service self2 (health_service rem) = (r3, tr3)"
              by (cases "service self2 (health_service rem)")
            from run sv vd hcl ret Inr names er True sv3
            have "tr = (tr1 @ EvScheduleJob job_hcl # tr2) @ tr3"
              by (simp add: start_try_def nid_def jd_def self1_def self2_def Let_def)
            with q12 rr show ?thesis by (simp only: rar_after_running)
          qed
        qed
      qed
    qed
  qed
qed

lemma start_with_ordered:
  assumes run: "start_with constructed self call deps rem fuel = (res, self', tr)"
  shows "registry_after_running tr"
proof (cases constructed)
  case (Inl e)
  with run have "tr = []" by (simp add: start_with_def)
  then show ?thesis by (simp add: rar_no_query)
next
  case (Inr nomad_service)
  obtain r s t where st: "start_try nomad_service self call deps rem fuel = (r, s, t)"
    by (cases "start_try nomad_service self call deps rem fuel")
  then have t: "registry_after_running t" by (rule start_try_ordered)
  show ?thesis
  proof (cases r)
    case None
    with run Inr st have "tr = t" by (simp add: start_with_def)
    with t show ?thesis by simp
  next
    case (Some a)
    with run Inr st have "tr = t @ [EvClose NomadClient, EvClose ConsulClient]"
      by (simp add: start_with_def)
    with t show ?thesis by (simp add: rar_append_quiet)
  qed
qed

lemma start_raises_TypeError:
  "start self call deps rem fuel = (Some (Inl TypeError), self, [])"
  by (simp add: start_def start_with_def NomadService_init_def)

lemma start_run:
  "start_with (Inr svc0) fresh_session call0 deps0 (remote0 ''nb'') 2 =
     (Some (Inr (''10.0.0.7'', 8888)),
      \<lparr>job_id = Value (Some ''n''), job_name = Value (Some ''b''),
       service_name = Value (Some ''n-notebook''), notebook_id = Value (Some ''0a1b2c3d4e'')\<rparr>,
      [EvScheduleJob ''job for 0a1b2c3d4e'',
       EvJobStatus (Some ''n'') (Inr (Some ''pending'')), EvSleep 5,
       EvJobStatus (Some ''n'') (Inr (Some ''running''))]
      @ EvHealthService (Some ''n-notebook'') (Inr [node_a])
      # [EvClose NomadClient, EvClose ConsulClient])"
  by (simp add: start_with_def start_try_def start_volume_def call0_def deps0_def remote0_def
        fresh_session_def parsed_response_def ok_empty_def schedule_job_def is_error_def
        unpack_pair_def ensure_running_def numeral_2_eq_2 read_attr_def job_status_def
        status_response_def service_def retrying.simps service_body_def node_a_def Let_def)

text \<open>
  C9. In every execution of \<open>start\<close>, whatever the constructor of the scheduler client
  did, whatever the remote systems answer and however long the loop has run: each query
  of the registry in the trace has, strictly before it, a status query of the scheduler
  that returned \<^verbatim>\<open>running\<close>.
\<close>

theorem registry_queried_after_running:
  "start_with constructed self call deps rem fuel = (res, self', tr) \<Longrightarrow>
   tr = pre @ EvHealthService sname answer # post \<Longrightarrow>
   \<exists>jid. EvJobStatus jid (Inr (Some ''running'')) \<in> set pre"
  using start_with_ordered[of constructed self call deps rem fuel res self' tr]
  by (auto simp: registry_after_running_def reported_running_def)

text \<open>
  A run that reaches the registry: the scheduler parses the job to the id \<^verbatim>\<open>nb\<close>, which
  the unpacking splits into \<^verbatim>\<open>n\<close> and \<^verbatim>\<open>b\<close>, reports \<^verbatim>\<open>pending\<close> and then
  \<^verbatim>\<open>running\<close>, and the registry has one instance.
\<close>

theorem registry_queried_after_running_witness:
  "start_with (Inr svc0) fresh_session call0 deps0 (remote0 ''nb'') 2 =
     (Some (Inr (''10.0.0.7'', 8888)),
      \<lparr>job_id = Value (Some ''n''), job_name = Value (Some ''b''),
       service_name = Value (Some ''n-notebook''), notebook_id = Value (Some ''0a1b2c3d4e'')\<rparr>,
      [EvScheduleJob ''job for 0a1b2c3d4e'',
       EvJobStatus (Some ''n'') (Inr (Some ''pending'')), EvSleep 5,
       EvJobStatus (Some ''n'') (Inr (Some ''running''))]
      @ EvHealthService (Some ''n-notebook'') (Inr [node_a])
      # [EvClose NomadClient, EvClose ConsulClient])
   \<and> (\<exists>jid. EvJobStatus jid (Inr (Some ''running''))
          \<in> set [EvScheduleJob ''job for 0a1b2c3d4e'',
                 EvJobStatus (Some ''n'') (Inr (Some ''pending'')), EvSleep 5,
                 EvJobStatus (Some ''n'') (Inr (Some ''running''))])"
  using registry_queried_after_running [OF start_run refl] start_run by (intro conjI)

section \<open>Polling\<close>

text \<open>
  The \<^verbatim>\<open>try\<close> statement of \<open>poll\<close>, with a constructed scheduler client: it never
  raises; it returns \<^verbatim>\<open>-1\<close> when the status query raises; it returns the status string
  when that is not \<^verbatim>\<open>running\<close>; and it returns \<^verbatim>\<open>None\<close> when the status is \<^verbatim>\<open>running\<close>
  and also when the job document has \<^verbatim>\<open>"Status": null\<close>, since the status is then
  \<^verbatim>\<open>None\<close> and is returned as it is.
\<close>

lemma poll_with_never_raises:
  "\<exists>r. poll_with (Inr nomad_service) self get_result = Inr r"
  by (simp add: poll_with_def split: sum.split)

lemma poll_with_healthy_iff:
  "job_id self = Value jid \<Longrightarrow> job_name self = Value jname \<Longrightarrow>
   poll_with (Inr nomad_service) self get_result = Inr PollNone
     \<longleftrightarrow> (job_status nomad_service jid get_result = Inr (Some ''running'')
          \<or> job_status nomad_service jid get_result = Inr None)"
  by (auto simp add: poll_with_def read_attr_def split: sum.splits option.splits)

lemma poll_with_null_status:
  "poll_with (Inr svc0) started_session
     (Inr \<lparr>status_code = 200, resp_text = ''{...}'', json = Some \<lparr>Status = Some None\<rparr>\<rparr>)
     = Inr PollNone"
  by (simp add: poll_with_def read_attr_def started_session_def job_status_def is_error_def)

lemma poll_with_unhealthy:
  "job_id self = Value jid \<Longrightarrow> job_name self = Value jname \<Longrightarrow>
   job_status nomad_service jid get_result = Inr (Some st) \<Longrightarrow> st \<noteq> ''running'' \<Longrightarrow>
   poll_with (Inr nomad_service) self get_result = Inr (PollStatus st)"
  by (simp add: poll_with_def read_attr_def)

lemma poll_with_error:
  "job_id self = Value jid \<Longrightarrow> job_status nomad_service jid get_result = Inl e \<Longrightarrow>
   poll_with (Inr nomad_service) self get_result = Inr (PollInt (- 1))"
  by (simp add: poll_with_def read_attr_def)

text \<open>
  C6. \<open>poll\<close> constructs the scheduler client before its \<^verbatim>\<open>try\<close> block, with \<^verbatim>\<open>client\<close>
  and \<^verbatim>\<open>log\<close> only, and the class requires \<^verbatim>\<open>namespace\<close> as well: for a session with a
  persisted job id and a scheduler that reports \<^verbatim>\<open>running\<close>, \<open>poll\<close> raises TypeError.
\<close>

theorem poll_raises_TypeError:
  "poll started_session (Inr (status_response ''running'')) = Inl TypeError"
  by (simp add: poll_def poll_with_def NomadService_init_def)

section \<open>Stopping\<close>

text \<open>
  \<open>stop\<close> raises TypeError for every session and every answer to the delete request, and
  changes no attribute.
\<close>

lemma stop_always_raises:
  "stop self delete_result = (Inl TypeError, self)"
  by (simp add: stop_def stop_with_def NomadService_init_def)

text \<open>
  The \<^verbatim>\<open>try\<close> statement of \<open>stop\<close>, with a constructed scheduler client: it never
  raises, and \<open>clear_state\<close> runs exactly when the delete call returned.
\<close>

lemma stop_with_try:
  "job_id self = Value jid \<Longrightarrow>
   stop_with (Inr nomad_service) self delete_result =
     (Inr (), case delete_job nomad_service jid None delete_result of
                Inl e \<Rightarrow> self
              | Inr u \<Rightarrow> clear_state self)"
  by (simp add: stop_with_def read_attr_def split: sum.split)

text \<open>
  C1. \<open>stop\<close> constructs the scheduler client before its \<^verbatim>\<open>try\<close> block, with \<^verbatim>\<open>client\<close>
  and \<^verbatim>\<open>log\<close> only, and the class requires \<^verbatim>\<open>namespace\<close> as well. For a session with
  all four identity attributes set, \<open>stop\<close> raises TypeError and leaves the four attributes
  set, both when the delete request would be answered with status 500 and when it would be
  answered with status 200.
\<close>

theorem stop_raises_TypeError:
  "stop started_session (Inr server_error) = (Inl TypeError, started_session)
   \<and> stop started_session (Inr ok_empty) = (Inl TypeError, started_session)
   \<and> job_id started_session = Value (Some ''jupyter-notebook-0a1b2c3d4e'')
   \<and> job_name started_session = Value (Some ''jupyter-notebook-0a1b2c3d4e'')
   \<and> service_name started_session = Value (Some ''jupyter-notebook-0a1b2c3d4e-notebook'')
   \<and> notebook_id started_session = Value (Some ''0a1b2c3d4e'')"
  by (simp add: stop_def stop_with_def NomadService_init_def started_session_def)

end
